theory Spec2Isabelle
  imports Main
begin

section \<open>The rendered page: a model of the DOM the extraction script queries\<close>

text \<open>
  The script passed to \<^verbatim>\<open>page.evaluate\<close> (scraper.py, lines 68-112) runs inside the
  rendered page and reads it through the DOM interface. A node is a text node or an
  element with a tag name (lower case, as the HTML parser stores it), its attributes in
  source order, and its children in document order. Every string is UTF-8: a
  \<open>string\<close> is the sequence of its bytes, so a character outside ASCII is two or more
  \<open>char\<close>s (a no-break space, U+00A0, is the bytes C2 A0).
\<close>

datatype node =
    Text string
  | Element string "(string \<times> string) list" "node list"

fun is_element :: "node \<Rightarrow> bool" where
  "is_element (Text s) = False"
| "is_element (Element t as cs) = True"

fun tagName :: "node \<Rightarrow> string" where
  "tagName (Text s) = []"
| "tagName (Element t as cs) = t"

fun getAttribute :: "node \<Rightarrow> string \<Rightarrow> string option" where
  "getAttribute (Text s) k = None"
| "getAttribute (Element t as cs) k = map_of as k"

text \<open>\<^verbatim>\<open>textContent\<close> of an element: the text of all its descendants, in document order.\<close>

fun textContent :: "node \<Rightarrow> string" where
  "textContent (Text s) = s"
| "textContent (Element t as cs) = concat (map textContent cs)"

text \<open>The element descendants of a node in document order (pre-order), the node itself
  excluded: the candidates of \<^verbatim>\<open>card.querySelector\<close>.\<close>

fun descendants :: "node \<Rightarrow> node list" where
  "descendants (Text s) = []"
| "descendants (Element t as cs) =
     concat (map (\<lambda>c. (if is_element c then [c] else []) @ descendants c) cs)"

text \<open>
  \<^verbatim>\<open>String.prototype.trim\<close> removes white space and line terminators from both ends
  of a string. These are the code points U+0009 to U+000D, U+0020, U+00A0, U+1680,
  U+2000 to U+200A, U+2028, U+2029, U+202F, U+205F, U+3000 and U+FEFF; the list gives
  the UTF-8 bytes of each, in that order.
\<close>

definition js_whitespace :: "string list" where
  "js_whitespace =
     [[CHR 0x09], [CHR 0x0A], [CHR 0x0B], [CHR 0x0C], [CHR 0x0D], [CHR 0x20],
      [CHR 0xC2, CHR 0xA0],
      [CHR 0xE1, CHR 0x9A, CHR 0x80],
      [CHR 0xE2, CHR 0x80, CHR 0x80], [CHR 0xE2, CHR 0x80, CHR 0x81],
      [CHR 0xE2, CHR 0x80, CHR 0x82], [CHR 0xE2, CHR 0x80, CHR 0x83],
      [CHR 0xE2, CHR 0x80, CHR 0x84], [CHR 0xE2, CHR 0x80, CHR 0x85],
      [CHR 0xE2, CHR 0x80, CHR 0x86], [CHR 0xE2, CHR 0x80, CHR 0x87],
      [CHR 0xE2, CHR 0x80, CHR 0x88], [CHR 0xE2, CHR 0x80, CHR 0x89],
      [CHR 0xE2, CHR 0x80, CHR 0x8A],
      [CHR 0xE2, CHR 0x80, CHR 0xA8], [CHR 0xE2, CHR 0x80, CHR 0xA9],
      [CHR 0xE2, CHR 0x80, CHR 0xAF],
      [CHR 0xE2, CHR 0x81, CHR 0x9F],
      [CHR 0xE3, CHR 0x80, CHR 0x80],
      [CHR 0xEF, CHR 0xBB, CHR 0xBF]]"

definition starts_with :: "string \<Rightarrow> string \<Rightarrow> bool" where
  "starts_with w s = (w \<noteq> [] \<and> take (length w) s = w)"

text \<open>
  Removing, as long as there is one, a leading member of a list of byte sequences. In
  UTF-8 the bytes of one character never begin or end the bytes of another, so on the
  list above this removes exactly the leading white-space characters, and on the
  reversed sequences, applied to the reversed string, exactly the trailing ones.
\<close>

function strip :: "string list \<Rightarrow> string \<Rightarrow> string" where
  "strip ws s =
     (case find (\<lambda>w. starts_with w s) ws of
        None \<Rightarrow> s
      | Some w \<Rightarrow> strip ws (drop (length w) s))"
  by pat_completeness auto
termination
proof (relation "measure (\<lambda>(ws, s). length s)")
  show "wf (measure (\<lambda>(ws, s). length s))" by simp
next
  fix ws :: "string list" and s w :: string
  assume "find (\<lambda>w. starts_with w s) ws = Some w"
  then have "starts_with w s"
    by (auto simp add: find_Some_iff)
  then have "w \<noteq> []" and "s \<noteq> []"
    by (auto simp add: starts_with_def)
  then show "((ws, drop (length w) s), (ws, s)) \<in> measure (\<lambda>(ws, s). length s)"
    by simp
qed

declare strip.simps [simp del]

definition trimStart :: "string \<Rightarrow> string" where
  "trimStart s = strip js_whitespace s"

definition trimEnd :: "string \<Rightarrow> string" where
  "trimEnd s = rev (strip (map rev js_whitespace) (rev s))"

definition trim :: "string \<Rightarrow> string" where
  "trim s = trimEnd (trimStart s)"

text \<open>
  The class attribute is a list of tokens separated by HTML's ASCII white space: tab, line
  feed, form feed, carriage return and space (not vertical tab).
\<close>

definition is_html_space :: "char \<Rightarrow> bool" where
  "is_html_space c =
     (c = CHR 0x09 \<or> c = CHR 0x0A \<or> c = CHR 0x0C \<or> c = CHR 0x0D \<or> c = CHR 0x20)"

fun tokens :: "string \<Rightarrow> string \<Rightarrow> string list" where
  "tokens acc [] = (if acc = [] then [] else [rev acc])"
| "tokens acc (c # cs) =
     (if is_html_space c then (if acc = [] then tokens [] cs else rev acc # tokens [] cs)
      else tokens (c # acc) cs)"

definition classList :: "node \<Rightarrow> string list" where
  "classList e = (case getAttribute e ''class'' of None \<Rightarrow> [] | Some v \<Rightarrow> tokens [] v)"

subsection \<open>Selectors\<close>

text \<open>
  The selectors the script uses are comma-separated groups of simple selectors of four
  shapes: \<^verbatim>\<open>.cls\<close>, \<^verbatim>\<open>tag\<close>, \<^verbatim>\<open>[attr]\<close> and \<^verbatim>\<open>[attr="v"]\<close>. A group is the list of
  its members in the order written.
\<close>

datatype selector =
    Class string
  | Tag string
  | HasAttr string
  | AttrEq string string

fun matches :: "node \<Rightarrow> selector \<Rightarrow> bool" where
  "matches e (Class c) = (is_element e \<and> c \<in> set (classList e))"
| "matches e (Tag t) = (is_element e \<and> tagName e = t)"
| "matches e (HasAttr k) = (getAttribute e k \<noteq> None)"
| "matches e (AttrEq k v) = (getAttribute e k = Some v)"

text \<open>An element matches a group when it matches one of its members.\<close>

primrec matches_any :: "selector list \<Rightarrow> node \<Rightarrow> bool" where
  "matches_any [] e = False"
| "matches_any (s # ss) e = (matches e s \<or> matches_any ss e)"

text \<open>
  \<^verbatim>\<open>card.querySelector(group)\<close>: the first descendant of the card, in document order,
  that matches the group; \<^verbatim>\<open>null\<close> (here \<open>None\<close>) when there is none.
\<close>

definition querySelector :: "node \<Rightarrow> selector list \<Rightarrow> node option" where
  "querySelector root g = find (matches_any g) (descendants root)"

text \<open>
  \<^verbatim>\<open>document.querySelectorAll(group)\<close>: the document is given by its root element, which
  is itself a candidate.
\<close>

definition document_querySelectorAll :: "node \<Rightarrow> selector list \<Rightarrow> node list" where
  "document_querySelectorAll doc g =
     filter (matches_any g) ((if is_element doc then [doc] else []) @ descendants doc)"


section \<open>The extraction script (scraper.py, lines 68-112)\<close>

text \<open>
  What the page's host environment decides and the script only observes:
  \<^item> \<open>resolve_url\<close>: how a URL attribute value is resolved against the document's base
    URL (the \<^verbatim>\<open>src\<close> and \<^verbatim>\<open>href\<close> properties return the resolved URL);
  \<^item> \<open>faulty\<close>: whether a DOM access made while a given container is processed throws.
    The script runs in the page's own JavaScript world, and the body of its loop is
    wrapped in \<^verbatim>\<open>try/catch\<close> for this case.
\<close>

record host =
  resolve_url :: "string \<Rightarrow> string"
  faulty :: "node \<Rightarrow> bool"

text \<open>The \<^verbatim>\<open>src\<close> property of an image and the \<^verbatim>\<open>href\<close> property of an anchor: the
  empty string when the attribute is absent, the resolved URL otherwise.\<close>

definition src :: "host \<Rightarrow> node \<Rightarrow> string" where
  "src h e = (case getAttribute e ''src'' of None \<Rightarrow> [] | Some v \<Rightarrow> resolve_url h v)"

definition href :: "host \<Rightarrow> node \<Rightarrow> string" where
  "href h e = (case getAttribute e ''href'' of None \<Rightarrow> [] | Some v \<Rightarrow> resolve_url h v)"

text \<open>One extracted item (lines 96-105). \<open>None\<close> is JavaScript's \<^verbatim>\<open>null\<close>.\<close>

record product =
  id_p :: nat
  name :: string
  price :: string
  originalPrice :: "string option"
  discount :: "string option"
  image_p :: "string option"
  link :: "string option"
  rating :: "string option"

text \<open>
  \<^verbatim>\<open>x || 'N/A'\<close> and \<^verbatim>\<open>x || null\<close> for \<open>x\<close> a string or \<^verbatim>\<open>undefined\<close> (here \<open>None\<close>):
  \<^verbatim>\<open>undefined\<close> and the empty string are falsy, every other string is truthy.
\<close>

definition or_default :: "string option \<Rightarrow> string \<Rightarrow> string" where
  "or_default x d = (case x of None \<Rightarrow> d | Some s \<Rightarrow> if s = [] then d else s)"

definition or_null :: "string option \<Rightarrow> string option" where
  "or_null x = (case x of None \<Rightarrow> None | Some s \<Rightarrow> if s = [] then None else Some s)"

text \<open>\<^verbatim>\<open>el?.textContent?.trim()\<close>: \<^verbatim>\<open>undefined\<close> when \<open>el\<close> is \<^verbatim>\<open>null\<close>.\<close>

definition trimmed_text :: "node option \<Rightarrow> string option" where
  "trimmed_text el = map_option (\<lambda>e. trim (textContent e)) el"

text \<open>\<^verbatim>\<open>imageEl?.src || imageEl?.getAttribute('data-src') || null\<close> (line 102).\<close>

definition image_of :: "host \<Rightarrow> node option \<Rightarrow> string option" where
  "image_of h imageEl =
     (case or_null (map_option (src h) imageEl) of
        Some u \<Rightarrow> Some u
      | None \<Rightarrow> or_null (case imageEl of None \<Rightarrow> None | Some e \<Rightarrow> getAttribute e ''data-src''))"

text \<open>The selector groups of lines 72-77 and 88-94, in the order written.\<close>

definition selectors :: "selector list" where
  "selectors = [Class ''product-item'', Class ''search-results-item'',
                Class ''product-card'', AttrEq ''data-testid'' ''product-card'']"

definition name_selectors :: "selector list" where
  "name_selectors = [Class ''product-name'', Class ''search-results-4-grid__information__name'',
                     Tag ''h3'', Class ''title'']"

definition price_selectors :: "selector list" where
  "price_selectors = [Class ''price'', Class ''search-results-4-grid__pod-price'',
                      Class ''price-value'', HasAttr ''data-price'']"

definition originalPrice_selectors :: "selector list" where
  "originalPrice_selectors = [Class ''original-price'', Class ''list-price'', Class ''price-old'']"

definition discount_selectors :: "selector list" where
  "discount_selectors = [Class ''discount'', Class ''discount-percentage'', Class ''badge-discount'']"

definition image_selectors :: "selector list" where
  "image_selectors = [Tag ''img'']"

definition link_selectors :: "selector list" where
  "link_selectors = [Tag ''a'']"

definition rating_selectors :: "selector list" where
  "rating_selectors = [Class ''rating'', Class ''stars'', Class ''review-rating'']"

text \<open>The object pushed for one container (lines 88-105), when nothing throws;
  \<open>cardEl\<close> is the script's \<^verbatim>\<open>card\<close>.\<close>

definition card_record :: "host \<Rightarrow> nat \<Rightarrow> node \<Rightarrow> product" where
  "card_record h index cardEl =
     (let nameEl = querySelector cardEl name_selectors;
          priceEl = querySelector cardEl price_selectors;
          originalPriceEl = querySelector cardEl originalPrice_selectors;
          discountEl = querySelector cardEl discount_selectors;
          imageEl = querySelector cardEl image_selectors;
          linkEl = querySelector cardEl link_selectors;
          ratingEl = querySelector cardEl rating_selectors
      in \<lparr> id_p = index + 1,
           name = or_default (trimmed_text nameEl) ''N/A'',
           price = or_default (trimmed_text priceEl) ''N/A'',
           originalPrice = or_null (trimmed_text originalPriceEl),
           discount = or_null (trimmed_text discountEl),
           image_p = image_of h imageEl,
           link = or_null (map_option (href h) linkEl),
           rating = or_null (trimmed_text ratingEl) \<rparr>)"

text \<open>The body of the \<^verbatim>\<open>try\<close> (lines 86-105): a throw anywhere in it happens before the
  \<^verbatim>\<open>push\<close> completes, so the container contributes a record or nothing.\<close>

datatype js_error = JsError

definition extract_card :: "host \<Rightarrow> nat \<Rightarrow> node \<Rightarrow> js_error + product" where
  "extract_card h index cardEl =
     (if faulty h cardEl then Inl JsError else Inr (card_record h index cardEl))"

text \<open>The selector loop of lines 79-83: the first selector with a match supplies all the
  containers; when none matches, the list is empty.\<close>

fun productElements :: "node \<Rightarrow> selector list \<Rightarrow> node list" where
  "productElements doc [] = []"
| "productElements doc (selector # rest) =
     (let found = document_querySelectorAll doc [selector]
      in if length found > 0 then found else productElements doc rest)"

text \<open>\<^verbatim>\<open>forEach((card, index) => { try { ... items.push(...) } catch (err) { ... } })\<close>
  (lines 85-109): the index advances for every container, the \<^verbatim>\<open>catch\<close> only logs to
  the page's console and the loop goes on.\<close>

fun forEach_card :: "host \<Rightarrow> nat \<Rightarrow> node list \<Rightarrow> product list \<Rightarrow> product list" where
  "forEach_card h index [] items = items"
| "forEach_card h index (cardEl # rest) items =
     (case extract_card h index cardEl of
        Inl err \<Rightarrow> forEach_card h (index + 1) rest items
      | Inr item \<Rightarrow> forEach_card h (index + 1) rest (items @ [item]))"

definition extraction_script :: "host \<Rightarrow> node \<Rightarrow> product list" where
  "extraction_script h doc = forEach_card h 0 (productElements doc selectors) []"


section \<open>The Python side (scraper.py)\<close>

text \<open>
  The outside world of one run: what each call into Playwright and \<^verbatim>\<open>requests\<close>
  does. A call returns or raises; every exception these libraries raise derives from
  \<^verbatim>\<open>Exception\<close>, and \<open>str\<close> is its message.
\<close>

datatype py_exn = TimeoutError string | Error string

fun str :: "py_exn \<Rightarrow> string" where
  "str (TimeoutError m) = m"
| "str (Error m) = m"

datatype outcome = Ok | Raises py_exn

text \<open>\<^verbatim>\<open>requests.post\<close> returns a response (status code, body text), raises
  \<^verbatim>\<open>requests.exceptions.Timeout\<close>, or raises another exception with a message.\<close>

datatype http_outcome =
    Response nat string
  | RaisesTimeout
  | RaisesOther string

record world =
  page_host :: host
  webhook_url :: string
  playwright_start :: outcome
  launch :: outcome
  new_context :: outcome
  new_page :: outcome
  goto :: outcome
  dom_at_wait :: node
  wait_visible :: bool
  scroll :: outcome
  settle :: outcome
  evaluate :: outcome
  dom_at_eval :: node
  close :: outcome
  now_timestamp :: string
  now_execution_time :: string
  http :: http_outcome

text \<open>
  \<open>dom_at_wait\<close> is the document while \<^verbatim>\<open>wait_for_selector\<close> polls, \<open>dom_at_eval\<close> the
  document when the extraction script runs, after the scroll and the two-second pause;
  \<open>wait_visible\<close> says whether an element matched by the wait is also visible in time.
  \<open>now_timestamp\<close> and \<open>now_execution_time\<close> are the two readings of the clock in
  \<^verbatim>\<open>send_to_n8n\<close>, already formatted.
\<close>

record metadata =
  scraper_version :: string
  execution_time :: string

record payload =
  timestamp :: string
  source :: string
  category :: string
  total_products :: nat
  products :: "product list"
  metadata :: metadata

text \<open>One constructor per \<^verbatim>\<open>log(...)\<close> line of the source, with the values it formats.\<close>

datatype log_msg =
    LogRule
  | LogTitle
  | LogStartingBrowser
  | LogNavigating string
  | LogWaiting
  | LogScrolling
  | LogExtracting
  | LogExtracted nat
  | LogScrapeError string
  | LogSending nat
  | LogSent
  | LogHttpError nat string
  | LogSendTimeout
  | LogSendError string
  | LogNoProducts
  | LogCompleted
  | LogDeliveryFailed
  | LogFatal string

text \<open>What a run does to the outside, in order.\<close>

datatype event =
    Log log_msg
  | PlaywrightStarted
  | PlaywrightStopped
  | BrowserLaunched
  | BrowserClosed
  | RequestsPost string payload

text \<open>A computation that may raise, threading the events so far.\<close>

type_synonym 'a io = "event list \<Rightarrow> (py_exn + 'a) \<times> event list"

definition io_return :: "'a \<Rightarrow> 'a io" where
  "io_return x = (\<lambda>t. (Inr x, t))"

definition io_bind :: "'a io \<Rightarrow> ('a \<Rightarrow> 'b io) \<Rightarrow> 'b io" where
  "io_bind m f = (\<lambda>t. case m t of (Inl e, t') \<Rightarrow> (Inl e, t') | (Inr x, t') \<Rightarrow> f x t')"

definition io_emit :: "event \<Rightarrow> unit io" where
  "io_emit ev = (\<lambda>t. (Inr (), t @ [ev]))"

definition io_step :: "outcome \<Rightarrow> unit io" where
  "io_step r = (\<lambda>t. case r of Ok \<Rightarrow> (Inr (), t) | Raises e \<Rightarrow> (Inl e, t))"

definition FALABELLA_URL :: string where
  "FALABELLA_URL = ''https://www.falabella.com.pe/falabella-pe/collection/ver-todo-zapatillas-y-zapatos-hombre?sortBy=derived.price.search%2Casc''"

text \<open>The group given to \<^verbatim>\<open>page.wait_for_selector\<close> (line 59).\<close>

definition wait_selectors :: "selector list" where
  "wait_selectors = [Class ''product-item'', Class ''search-results-item'', Class ''product-card'']"

text \<open>
  \<^verbatim>\<open>page.wait_for_selector(group, timeout=30000)\<close>: returns once an element matching the
  group is attached and visible, raises Playwright's \<^verbatim>\<open>TimeoutError\<close> when the 30
  seconds pass first; with no matching element in the document it can only time out.
\<close>

definition wait_for_selector :: "world \<Rightarrow> outcome" where
  "wait_for_selector w =
     (if document_querySelectorAll (dom_at_wait w) wait_selectors \<noteq> [] \<and> wait_visible w
      then Ok else Raises (TimeoutError ''Timeout 30000ms exceeded.''))"

text \<open>\<^verbatim>\<open>page.evaluate\<close> of the extraction script (lines 68-112).\<close>

definition page_evaluate :: "world \<Rightarrow> product list io" where
  "page_evaluate w =
     io_bind (io_step (evaluate w))
       (\<lambda>_. io_return (extraction_script (page_host w) (dom_at_eval w)))"

text \<open>The body of the \<^verbatim>\<open>with\<close> block (lines 33-116); \<open>prods\<close> is the source's
  \<^verbatim>\<open>products\<close>.\<close>

definition with_body :: "world \<Rightarrow> product list io" where
  "with_body w =
     io_bind (io_step (launch w)) (\<lambda>_.
     io_bind (io_emit BrowserLaunched) (\<lambda>_.
     io_bind (io_step (new_context w)) (\<lambda>_.
     io_bind (io_step (new_page w)) (\<lambda>_.
     io_bind (io_emit (Log (LogNavigating FALABELLA_URL))) (\<lambda>_.
     io_bind (io_step (goto w)) (\<lambda>_.
     io_bind (io_emit (Log LogWaiting)) (\<lambda>_.
     io_bind (io_step (wait_for_selector w)) (\<lambda>_.
     io_bind (io_emit (Log LogScrolling)) (\<lambda>_.
     io_bind (io_step (scroll w)) (\<lambda>_.
     io_bind (io_step (settle w)) (\<lambda>_.
     io_bind (io_emit (Log LogExtracting)) (\<lambda>_.
     io_bind (page_evaluate w) (\<lambda>prods.
     io_bind (io_step (close w)) (\<lambda>_.
     io_bind (io_emit BrowserClosed) (\<lambda>_.
     io_bind (io_emit (Log (LogExtracted (length prods)))) (\<lambda>_.
     io_return prods))))))))))))))))"

text \<open>
  \<^verbatim>\<open>with sync_playwright() as p: body\<close> (line 31). When entering fails the body does
  not run. Otherwise Playwright's driver is started, and the context manager stops it on
  every way out of the body, return or exception, before control leaves the statement.
\<close>

definition with_sync_playwright :: "world \<Rightarrow> 'a io \<Rightarrow> 'a io" where
  "with_sync_playwright w body =
     (\<lambda>t. case playwright_start w of
             Raises e \<Rightarrow> (Inl e, t)
           | Ok \<Rightarrow> (case body (t @ [PlaywrightStarted]) of (r, t') \<Rightarrow> (r, t' @ [PlaywrightStopped])))"

text \<open>\<^verbatim>\<open>scrape_falabella\<close> (lines 23-120): the handler logs and re-raises.\<close>

definition scrape_falabella :: "world \<Rightarrow> product list io" where
  "scrape_falabella w =
     (\<lambda>t. case with_sync_playwright w (with_body w) (t @ [Log LogStartingBrowser]) of
             (Inl e, t') \<Rightarrow> (Inl e, t' @ [Log (LogScrapeError (str e))])
           | (Inr prods, t') \<Rightarrow> (Inr prods, t'))"

text \<open>The envelope of lines 129-139.\<close>

definition build_payload :: "world \<Rightarrow> product list \<Rightarrow> payload" where
  "build_payload w ps =
     \<lparr> timestamp = now_timestamp w,
       source = ''falabella'',
       category = ''zapatillas-zapatos-hombre'',
       total_products = length ps,
       products = ps,
       metadata = \<lparr> scraper_version = ''1.0'', execution_time = now_execution_time w \<rparr> \<rparr>"

text \<open>\<^verbatim>\<open>send_to_n8n\<close> (lines 122-166): the result and the events it adds.\<close>

definition send_to_n8n :: "world \<Rightarrow> product list \<Rightarrow> event list \<Rightarrow> bool \<times> event list" where
  "send_to_n8n w ps t =
     (let body = build_payload w ps;
          t1 = t @ [Log (LogSending (length ps)), RequestsPost (webhook_url w) body]
      in case http w of
           Response status_code text \<Rightarrow>
             if status_code = 200 then (True, t1 @ [Log LogSent])
             else (False, t1 @ [Log (LogHttpError status_code text)])
         | RaisesTimeout \<Rightarrow> (False, t1 @ [Log LogSendTimeout])
         | RaisesOther e \<Rightarrow> (False, t1 @ [Log (LogSendError e)]))"

text \<open>\<^verbatim>\<open>main\<close> (lines 168-196): the exit code of the process and the events of the run.
  \<^verbatim>\<open>sys.exit\<close> raises \<^verbatim>\<open>SystemExit\<close>, which the \<^verbatim>\<open>except Exception\<close> does not catch.\<close>

definition main :: "world \<Rightarrow> nat \<times> event list" where
  "main w =
     (case scrape_falabella w [Log LogRule, Log LogTitle, Log LogRule] of
        (Inl e, t) \<Rightarrow> (1, t @ [Log (LogFatal (str e))])
      | (Inr ps, t) \<Rightarrow>
          if ps = [] then (1, t @ [Log LogNoProducts])
          else (case send_to_n8n w ps t of
                  (success, t') \<Rightarrow>
                    if success then (0, t' @ [Log LogRule, Log LogCompleted, Log LogRule])
                    else (1, t' @ [Log LogDeliveryFailed])))"


section \<open>Reading a run\<close>

text \<open>The envelopes handed to \<^verbatim>\<open>requests.post\<close> during a run, in order.\<close>

fun posted :: "event list \<Rightarrow> payload list" where
  "posted [] = []"
| "posted (RequestsPost url body # evs) = body # posted evs"
| "posted (ev # evs) = posted evs"

text \<open>
  Whether a browser process launched by the run is still alive after the events so far.
  The browser is a child of Playwright's driver: \<^verbatim>\<open>browser.close()\<close> ends it, and so
  does stopping the driver, which closes every browser it launched.
\<close>

fun track :: "bool \<Rightarrow> event \<Rightarrow> bool" where
  "track b BrowserLaunched = True"
| "track b BrowserClosed = False"
| "track b PlaywrightStopped = False"
| "track b ev = b"

definition browser_open :: "event list \<Rightarrow> bool" where
  "browser_open evs = foldl track False evs"

subsection \<open>The text of the log lines\<close>

text \<open>
  The message each \<^verbatim>\<open>log(...)\<close> call formats, as UTF-8 bytes (the pictographs of the
  source are written byte by byte); the time stamp \<^verbatim>\<open>log\<close> puts in front is left out.
\<close>

fun decimal :: "nat \<Rightarrow> string" where
  "decimal n = (if n < 10 then [''0123456789'' ! n]
                else decimal (n div 10) @ [''0123456789'' ! (n mod 10)])"

definition cross_mark :: string where
  "cross_mark = [CHR 0xE2, CHR 0x9D, CHR 0x8C]"

definition check_mark :: string where
  "check_mark = [CHR 0xE2, CHR 0x9C, CHR 0x85]"

fun render :: "log_msg \<Rightarrow> string" where
  "render LogRule = replicate 50 CHR ''=''"
| "render LogTitle =
     [CHR 0xF0, CHR 0x9F, CHR 0x8E, CHR 0xAF] @ '' SCRAPER FALABELLA ''
       @ [CHR 0xE2, CHR 0x86, CHR 0x92] @ '' N8N''"
| "render LogStartingBrowser =
     [CHR 0xF0, CHR 0x9F, CHR 0x9A, CHR 0x80] @ '' Iniciando navegador...''"
| "render (LogNavigating url) =
     [CHR 0xF0, CHR 0x9F, CHR 0x93, CHR 0xA1] @ '' Navegando a: '' @ url"
| "render LogWaiting = [CHR 0xE2, CHR 0x8F, CHR 0xB3] @ '' Esperando productos...''"
| "render LogScrolling = [CHR 0xF0, CHR 0x9F, CHR 0x93, CHR 0x9C] @ '' Haciendo scroll...''"
| "render LogExtracting = [CHR 0xF0, CHR 0x9F, CHR 0x94, CHR 0x8D] @ '' Extrayendo datos...''"
| "render (LogExtracted n) =
     check_mark @ '' Extra'' @ [CHR 0xC3, CHR 0xAD] @ ''dos '' @ decimal n @ '' productos''"
| "render (LogScrapeError e) = cross_mark @ '' Error en scraping: '' @ e"
| "render (LogSending n) =
     [CHR 0xF0, CHR 0x9F, CHR 0x93, CHR 0xA4] @ '' Enviando '' @ decimal n @ '' productos a n8n...''"
| "render LogSent = check_mark @ '' Datos enviados correctamente a n8n''"
| "render (LogHttpError status_code text) =
     cross_mark @ '' Error HTTP '' @ decimal status_code @ '': '' @ text"
| "render LogSendTimeout = cross_mark @ '' Timeout al enviar a n8n''"
| "render (LogSendError e) = cross_mark @ '' Error enviando a n8n: '' @ e"
| "render LogNoProducts =
     [CHR 0xE2, CHR 0x9A, CHR 0xA0, CHR 0xEF, CHR 0xB8, CHR 0x8F] @ '' No se encontraron productos''"
| "render LogCompleted = check_mark @ '' PROCESO COMPLETADO EXITOSAMENTE''"
| "render LogDeliveryFailed = cross_mark @ '' Error al enviar datos''"
| "render (LogFatal e) = [CHR 0xF0, CHR 0x9F, CHR 0x92, CHR 0xA5] @ '' Error fatal: '' @ e"

text \<open>The lines a run prints, in order.\<close>

fun printed :: "event list \<Rightarrow> string list" where
  "printed [] = []"
| "printed (Log m # evs) = render m # printed evs"
| "printed (ev # evs) = printed evs"

subsection \<open>The field rule in the specification's words\<close>

text \<open>
  The specification describes the choice of a field's element as a prioritized list:
  probe the sub-selectors one by one and take the first that has a match in the
  container. This is that rule, to be compared with the script's single
  \<^verbatim>\<open>querySelector\<close> call on the whole group.
\<close>

fun first_by_priority :: "node \<Rightarrow> selector list \<Rightarrow> node option" where
  "first_by_priority root [] = None"
| "first_by_priority root (s # ss) =
     (case querySelector root [s] of Some e \<Rightarrow> Some e | None \<Rightarrow> first_by_priority root ss)"

subsection \<open>The fields of a record and the elements they are read from\<close>

text \<open>The seven fields the script reads from elements, each with its selector group.\<close>

datatype field =
    NameField
  | PriceField
  | OriginalPriceField
  | DiscountField
  | ImageField
  | LinkField
  | RatingField

fun field_selectors :: "field \<Rightarrow> selector list" where
  "field_selectors NameField = name_selectors"
| "field_selectors PriceField = price_selectors"
| "field_selectors OriginalPriceField = originalPrice_selectors"
| "field_selectors DiscountField = discount_selectors"
| "field_selectors ImageField = image_selectors"
| "field_selectors LinkField = link_selectors"
| "field_selectors RatingField = rating_selectors"

text \<open>The value a record holds for a field; \<open>None\<close> is \<^verbatim>\<open>null\<close>.\<close>

fun field_of_record :: "field \<Rightarrow> product \<Rightarrow> string option" where
  "field_of_record NameField r = Some (name r)"
| "field_of_record PriceField r = Some (price r)"
| "field_of_record OriginalPriceField r = originalPrice r"
| "field_of_record DiscountField r = discount r"
| "field_of_record ImageField r = image_p r"
| "field_of_record LinkField r = link r"
| "field_of_record RatingField r = rating r"

text \<open>
  The value of a field when it is read from a given element: the trimmed text, or the
  URL property, with the replacement the field has for an empty string.
\<close>

fun value_from :: "host \<Rightarrow> field \<Rightarrow> node \<Rightarrow> string option" where
  "value_from h NameField e =
     Some (if trim (textContent e) = [] then ''N/A'' else trim (textContent e))"
| "value_from h PriceField e =
     Some (if trim (textContent e) = [] then ''N/A'' else trim (textContent e))"
| "value_from h OriginalPriceField e =
     (if trim (textContent e) = [] then None else Some (trim (textContent e)))"
| "value_from h DiscountField e =
     (if trim (textContent e) = [] then None else Some (trim (textContent e)))"
| "value_from h ImageField e =
     (if src h e \<noteq> [] then Some (src h e)
      else case getAttribute e ''data-src'' of
             None \<Rightarrow> None
           | Some u \<Rightarrow> if u = [] then None else Some u)"
| "value_from h LinkField e = (if href h e = [] then None else Some (href h e))"
| "value_from h RatingField e =
     (if trim (textContent e) = [] then None else Some (trim (textContent e)))"

text \<open>
  Descendant number \<open>i\<close> of a container, counted in document order, is the first one
  that matches some sub-selector of a group.
\<close>

definition first_match_at :: "node \<Rightarrow> selector list \<Rightarrow> nat \<Rightarrow> bool" where
  "first_match_at c g i =
     (i < length (descendants c) \<and> matches_any g (descendants c ! i)
      \<and> list_all (\<lambda>x. \<not> matches_any g x) (take i (descendants c)))"

text \<open>At most the sub-selector \<open>s\<close> of a group has a match in a container.\<close>

definition only_match :: "node \<Rightarrow> selector list \<Rightarrow> selector \<Rightarrow> bool" where
  "only_match c g s =
     (s \<in> set g
      \<and> list_all (\<lambda>s'. s' = s \<or> list_all (\<lambda>x. \<not> matches x s') (descendants c)) g)"


section \<open>Example pages and an example run\<close>

text \<open>
  Three listing cards in the markup the first container selector expects (a complete one,
  one whose name is a space and a no-break space and whose image is lazily loaded, one with a price only), a page with no
  card, a page whose only card carries the \<^verbatim>\<open>data-testid\<close> attribute, and a run in
  which every call succeeds and the webhook answers 200.
\<close>

definition example_host :: host where
  "example_host = \<lparr> resolve_url = (\<lambda>v. ''https://www.falabella.com.pe'' @ v), faulty = (\<lambda>c. False) \<rparr>"

definition card_a :: node where
  "card_a = Element ''div'' [(''class'', ''pod product-item'')]
     [Element ''a'' [(''href'', ''/p/1'')]
        [Element ''img'' [(''src'', ''/img/1.jpg'')] [],
         Element ''span'' [(''class'', ''title'')] [Text ''Marca''],
         Element ''h3'' [] [Text '' Zapatilla Uno '']],
      Element ''span'' [(''class'', ''price'')] [Text '' S/ 99.90 ''],
      Element ''span'' [(''class'', ''rating'')] [Text ''4.5'']]"

definition card_b :: node where
  "card_b = Element ''div'' [(''class'', ''product-item'')]
     [Element ''img'' [(''data-src'', ''/img/2.jpg'')] [],
      Element ''h3'' [] [Text [CHR 0x20, CHR 0xC2, CHR 0xA0]],
      Element ''span'' [(''class'', ''price'')] [Text ''S/ 10'']]"

definition card_c :: node where
  "card_c = Element ''div'' [(''class'', ''product-item'')]
     [Element ''span'' [(''class'', ''price'')] [Text ''S/ 25'']]"

definition example_doc :: node where
  "example_doc = Element ''html'' [] [Element ''body'' [] [card_a, Text ''x'', card_b, card_c]]"

definition empty_doc :: node where
  "empty_doc = Element ''html'' [] [Element ''body'' [] [Text ''Sin resultados'']]"

definition testid_doc :: node where
  "testid_doc = Element ''html'' []
     [Element ''body'' []
        [Element ''div'' [(''data-testid'', ''product-card'')]
           [Element ''h3'' [] [Text ''Zapato Dos''],
            Element ''span'' [(''class'', ''price'')] [Text ''S/ 59'']]]]"

definition example_world :: world where
  "example_world =
     \<lparr> page_host = example_host,
       webhook_url = ''https://n8n.example/webhook'',
       playwright_start = Ok, launch = Ok, new_context = Ok, new_page = Ok, goto = Ok,
       dom_at_wait = example_doc, wait_visible = True,
       scroll = Ok, settle = Ok, evaluate = Ok,
       dom_at_eval = example_doc, close = Ok,
       now_timestamp = ''2024-01-01T00:00:00'', now_execution_time = ''2024-01-01T00:00:01'',
       http = Response 200 ''ok'' \<rparr>"


section \<open>Properties\<close>

subsection \<open>Auxiliary facts\<close>

lemma posted_append: "posted (xs @ ys) = posted xs @ posted ys"
  by (induction xs rule: posted.induct) simp_all

lemma browser_open_snoc: "browser_open (evs @ [ev]) = track (browser_open evs) ev"
  by (simp add: browser_open_def)

lemmas io_defs = io_bind_def io_step_def io_emit_def io_return_def

lemma with_body_posted: "posted (snd (with_body w t)) = posted t"
  by (simp add: with_body_def page_evaluate_def io_defs posted_append split: outcome.splits)

lemma with_sync_playwright_posted:
  assumes "\<And>t. posted (snd (body t)) = posted t"
  shows "posted (snd (with_sync_playwright w body t)) = posted t"
proof (cases "playwright_start w")
  case Ok
  obtain r t' where b: "body (t @ [PlaywrightStarted]) = (r, t')"
    by (cases "body (t @ [PlaywrightStarted])")
  from assms [of "t @ [PlaywrightStarted]"] b have "posted t' = posted t"
    by (simp add: posted_append)
  with Ok b show ?thesis
    by (simp add: with_sync_playwright_def posted_append)
next
  case (Raises e)
  then show ?thesis by (simp add: with_sync_playwright_def)
qed

lemma scrape_falabella_posted: "posted (snd (scrape_falabella w t)) = posted t"
proof -
  obtain r t' where b: "with_sync_playwright w (with_body w) (t @ [Log LogStartingBrowser]) = (r, t')"
    by (cases "with_sync_playwright w (with_body w) (t @ [Log LogStartingBrowser])")
  have "posted (snd (with_sync_playwright w (with_body w) (t @ [Log LogStartingBrowser])))
        = posted (t @ [Log LogStartingBrowser])"
    by (rule with_sync_playwright_posted) (rule with_body_posted)
  with b have "posted t' = posted t"
    by (simp add: posted_append)
  with b show ?thesis
    by (cases r) (simp_all add: scrape_falabella_def posted_append)
qed

lemmas ex_defs = example_world_def example_host_def example_doc_def card_a_def card_b_def
  card_c_def empty_doc_def testid_doc_def

lemmas run_defs = scrape_falabella_def with_sync_playwright_def with_body_def page_evaluate_def
  io_defs wait_for_selector_def wait_selectors_def document_querySelectorAll_def classList_def
  is_html_space_def extraction_script_def selectors_def

text \<open>The loop over the containers, in closed form: the records of the containers that do
  not throw, each with the index of its container.\<close>

lemma upt_0_Suc_map: "[0..<Suc n] = 0 # map Suc [0..<n]"
  by (simp add: upt_conv_Cons map_Suc_upt del: upt_Suc)

lemma forEach_card_eq:
  "forEach_card h i cs items =
     items @ map (\<lambda>k. card_record h (i + k) (cs ! k))
               (filter (\<lambda>k. \<not> faulty h (cs ! k)) [0..<length cs])"
proof (induction cs arbitrary: i items)
  case Nil
  show ?case by simp
next
  case (Cons c cs)
  have up: "[0..<length (c # cs)] = 0 # map Suc [0..<length cs]"
    using upt_0_Suc_map [of "length cs"] by simp
  show ?case
    by (simp only: up) (simp add: extract_card_def Cons.IH filter_map o_def)
qed

lemma extraction_script_eq:
  "extraction_script h doc =
     map (\<lambda>k. card_record h k (productElements doc selectors ! k))
         (filter (\<lambda>k. \<not> faulty h (productElements doc selectors ! k))
                 [0..<length (productElements doc selectors)])"
  by (simp add: extraction_script_def forEach_card_eq)

lemma id_p_card_record: "id_p (card_record h k c) = Suc k"
  by (simp add: card_record_def)

lemma extraction_ids_eq:
  "map id_p (extraction_script h doc) =
     map Suc (filter (\<lambda>k. \<not> faulty h (productElements doc selectors ! k))
                     [0..<length (productElements doc selectors)])"
  by (simp add: extraction_script_eq o_def id_p_card_record)

lemma strict_sorted_map_Suc_filter: "sorted_wrt (<) (map Suc (filter P [0..<n]))"
  by (simp add: sorted_wrt_map sorted_wrt_filter)

text \<open>The script's single query against the prioritized rule.\<close>

lemma matches_any_iff: "matches_any g e = (\<exists>s \<in> set g. matches e s)"
  by (induction g) auto

lemma querySelector_None_iff:
  "querySelector c g = None \<longleftrightarrow> \<not> (\<exists>x \<in> set (descendants c). matches_any g x)"
  by (auto simp add: querySelector_def find_None_iff)

lemma first_by_priority_None_iff:
  "first_by_priority c g = None \<longleftrightarrow> querySelector c g = None"
proof (induction g)
  case Nil
  show ?case by (simp add: querySelector_None_iff)
next
  case (Cons s g)
  show ?case
  proof (cases "querySelector c [s]")
    case None
    then have "\<forall>x \<in> set (descendants c). \<not> matches x s"
      by (simp add: querySelector_None_iff)
    then have "querySelector c (s # g) = None \<longleftrightarrow> querySelector c g = None"
      by (simp add: querySelector_None_iff)
    with None Cons.IH show ?thesis by simp
  next
    case (Some e)
    then have "\<exists>x \<in> set (descendants c). matches x s"
      using querySelector_None_iff [of c "[s]"] by auto
    then have "querySelector c (s # g) \<noteq> None"
      by (auto simp add: querySelector_None_iff)
    with Some show ?thesis by simp
  qed
qed

lemma find_cong_on: "(\<And>x. x \<in> set xs \<Longrightarrow> P x = Q x) \<Longrightarrow> find P xs = find Q xs"
  by (induction xs) auto

lemma first_by_priority_single_match:
  assumes "s \<in> set g"
    and "\<forall>s' \<in> set g. s' \<noteq> s \<longrightarrow> querySelector c [s'] = None"
  shows "first_by_priority c g = querySelector c [s]"
  using assms
proof (induction g)
  case Nil
  then show ?case by simp
next
  case (Cons a g)
  show ?case
  proof (cases "a = s")
    case True
    show ?thesis
    proof (cases "querySelector c [s]")
      case (Some e)
      with True show ?thesis by simp
    next
      case None
      have "\<forall>s' \<in> set (a # g). querySelector c [s'] = None"
        using Cons.prems(2) None by auto
      then have "\<forall>x \<in> set (descendants c). \<not> matches_any (a # g) x"
        unfolding matches_any_iff querySelector_None_iff by auto
      then have "querySelector c (a # g) = None"
        by (simp add: querySelector_None_iff)
      then have "first_by_priority c (a # g) = None"
        by (simp only: first_by_priority_None_iff)
      with None show ?thesis by simp
    qed
  next
    case False
    with Cons.prems have a: "querySelector c [a] = None" and s: "s \<in> set g"
      and r: "\<forall>s' \<in> set g. s' \<noteq> s \<longrightarrow> querySelector c [s'] = None"
      by auto
    from Cons.IH [OF s r] a show ?thesis by simp
  qed
qed

lemma querySelector_single_match:
  assumes "s \<in> set g"
    and "\<forall>s' \<in> set g. s' \<noteq> s \<longrightarrow> querySelector c [s'] = None"
  shows "querySelector c g = querySelector c [s]"
proof -
  have "matches_any g x = matches_any [s] x" if "x \<in> set (descendants c)" for x
  proof -
    have "\<not> matches x s'" if "s' \<in> set g" "s' \<noteq> s" for s'
      using assms(2) that \<open>x \<in> set (descendants c)\<close>
      by (auto simp add: querySelector_None_iff)
    with assms(1) show ?thesis
      unfolding matches_any_iff by auto
  qed
  then show ?thesis
    unfolding querySelector_def by (rule find_cong_on)
qed

lemma first_match_at_querySelector:
  assumes "first_match_at c g i"
  shows "querySelector c g = Some (descendants c ! i)"
proof -
  from assms have i: "i < length (descendants c)" and m: "matches_any g (descendants c ! i)"
    and b: "\<forall>x \<in> set (take i (descendants c)). \<not> matches_any g x"
    by (simp_all add: first_match_at_def list_all_iff)
  have "\<not> matches_any g (descendants c ! j)" if "j < i" for j
  proof -
    from that i have "descendants c ! j \<in> set (take i (descendants c))"
      by (metis in_set_conv_nth length_take min_less_iff_conj nth_take order_less_trans)
    with b show ?thesis by blast
  qed
  with i m show ?thesis
    unfolding querySelector_def find_Some_iff by blast
qed

lemma only_match_queries:
  assumes "only_match c g s"
  shows "s \<in> set g" and "\<forall>s' \<in> set g. s' \<noteq> s \<longrightarrow> querySelector c [s'] = None"
proof -
  from assms show "s \<in> set g"
    by (simp add: only_match_def)
  from assms have "\<forall>s' \<in> set g. s' \<noteq> s \<longrightarrow> (\<forall>x \<in> set (descendants c). \<not> matches x s')"
    by (auto simp add: only_match_def list_all_iff)
  then show "\<forall>s' \<in> set g. s' \<noteq> s \<longrightarrow> querySelector c [s'] = None"
    by (simp add: querySelector_None_iff)
qed

lemma priority_agrees:
  assumes "first_match_at c g i" and "only_match c g s"
  shows "first_by_priority c g = Some (descendants c ! i)"
proof -
  note q = only_match_queries [OF assms(2)]
  have "first_by_priority c g = querySelector c [s]"
    using q by (rule first_by_priority_single_match)
  also have "querySelector c [s] = querySelector c g"
    using q by (rule querySelector_single_match [symmetric])
  also have "querySelector c g = Some (descendants c ! i)"
    using assms(1) by (rule first_match_at_querySelector)
  finally show ?thesis .
qed

lemma card_record_field:
  assumes "first_match_at c (field_selectors f) i"
  shows "field_of_record f (card_record h k c) = value_from h f (descendants c ! i)"
proof -
  from assms have "querySelector c (field_selectors f) = Some (descendants c ! i)"
    by (rule first_match_at_querySelector)
  then show ?thesis
    by (cases f)
      (simp_all add: card_record_def Let_def trimmed_text_def or_default_def or_null_def
        image_of_def split: option.splits)
qed

text \<open>The trimmed texts of the example pages.\<close>

lemma trim_examples:
  "trim ''Marca'' = ''Marca''"
  "trim '' Zapatilla Uno '' = ''Zapatilla Uno''"
  "trim '' S/ 99.90 '' = ''S/ 99.90''"
  "trim ''4.5'' = ''4.5''"
  "trim [CHR 0x20, CHR 0xC2, CHR 0xA0] = []"
  "trim ''S/ 10'' = ''S/ 10''"
  "trim ''S/ 25'' = ''S/ 25''"
  "trim ''Zapato Dos'' = ''Zapato Dos''"
  "trim ''S/ 59'' = ''S/ 59''"
  by code_simp+

text \<open>Where the records of a result come from, and what a missing element gives.\<close>

lemma extraction_record_source:
  assumes "r \<in> set (extraction_script h doc)"
  shows "\<exists>k < length (productElements doc selectors).
           \<not> faulty h (productElements doc selectors ! k)
           \<and> r = card_record h k (productElements doc selectors ! k)"
  using assms unfolding extraction_script_eq by auto

lemma card_record_absent:
  "(querySelector c name_selectors = None \<longrightarrow> name (card_record h k c) = ''N/A'')
   \<and> (querySelector c price_selectors = None \<longrightarrow> price (card_record h k c) = ''N/A'')
   \<and> (querySelector c originalPrice_selectors = None \<longrightarrow> originalPrice (card_record h k c) = None)
   \<and> (querySelector c discount_selectors = None \<longrightarrow> discount (card_record h k c) = None)
   \<and> (querySelector c image_selectors = None \<longrightarrow> image_p (card_record h k c) = None)
   \<and> (querySelector c link_selectors = None \<longrightarrow> link (card_record h k c) = None)
   \<and> (querySelector c rating_selectors = None \<longrightarrow> rating (card_record h k c) = None)"
  by (simp add: card_record_def Let_def trimmed_text_def or_default_def or_null_def image_of_def)

text \<open>Trimming a string made of white space only.\<close>

lemma js_whitespace_prefix_free:
  "list_all (\<lambda>a. list_all (\<lambda>b. \<not> starts_with a b \<or> a = b) js_whitespace) js_whitespace"
  by code_simp

lemma js_whitespace_nonempty: "list_all (\<lambda>a. a \<noteq> []) js_whitespace"
  by code_simp

lemma find_unique_prefix:
  assumes "w \<in> set W" and "w \<noteq> []"
    and pf: "list_all (\<lambda>a. list_all (\<lambda>b. \<not> starts_with a b \<or> a = b) W) W"
  shows "find (\<lambda>w'. starts_with w' (w @ r)) W = Some w"
proof -
  have "starts_with w (w @ r)"
    using assms(2) by (simp add: starts_with_def)
  with assms(1) have "find (\<lambda>w'. starts_with w' (w @ r)) W \<noteq> None"
    by (auto simp add: find_None_iff)
  then obtain x where x: "find (\<lambda>w'. starts_with w' (w @ r)) W = Some x"
    by auto
  then have xin: "x \<in> set W" and xs: "starts_with x (w @ r)"
    by (auto simp add: find_Some_iff)
  from xs have xne: "x \<noteq> []" and xt: "take (length x) (w @ r) = x"
    by (simp_all add: starts_with_def)
  have "x = w"
  proof (cases "length x \<le> length w")
    case True
    with xt have "take (length x) w = x" by simp
    with xne have "starts_with x w" by (simp add: starts_with_def)
    with pf xin assms(1) show ?thesis
      by (auto simp add: list_all_iff)
  next
    case False
    then have "take (length w) x = take (length w) (take (length x) (w @ r))"
      using xt by simp
    also have "\<dots> = w"
      using False by (simp add: min_def)
    finally have "starts_with w x"
      using assms(2) by (simp add: starts_with_def)
    with pf xin assms(1) show ?thesis
      by (auto simp add: list_all_iff)
  qed
  with x show ?thesis by simp
qed

lemma find_js_whitespace:
  assumes "w \<in> set js_whitespace"
  shows "find (\<lambda>w'. starts_with w' (w @ r)) js_whitespace = Some w"
proof -
  from assms js_whitespace_nonempty have "w \<noteq> []"
    by (simp add: list_all_iff)
  with assms show ?thesis
    by (rule find_unique_prefix) (rule js_whitespace_prefix_free)
qed

lemma strip_Nil: "strip ws [] = []"
proof -
  have "find (\<lambda>w. starts_with w []) ws = None"
    by (auto simp add: find_None_iff starts_with_def)
  then show ?thesis
    by (subst strip.simps) simp
qed

lemma trimStart_blank:
  "list_all (\<lambda>w. w \<in> set js_whitespace) bs \<Longrightarrow> trimStart (concat bs) = []"
proof (induction bs)
  case Nil
  show ?case by (simp add: trimStart_def strip_Nil)
next
  case (Cons w bs)
  then have w: "w \<in> set js_whitespace" and rest: "trimStart (concat bs) = []"
    by simp_all
  have "strip js_whitespace (w @ concat bs) = strip js_whitespace (drop (length w) (w @ concat bs))"
    by (subst strip.simps) (simp add: find_js_whitespace [OF w])
  with rest show ?case
    by (simp add: trimStart_def)
qed

lemma trim_blank:
  "list_all (\<lambda>w. w \<in> set js_whitespace) bs \<Longrightarrow> trim (concat bs) = []"
proof -
  assume "list_all (\<lambda>w. w \<in> set js_whitespace) bs"
  then have "trimStart (concat bs) = []"
    by (rule trimStart_blank)
  then have "trim (concat bs) = trimEnd []"
    by (simp only: trim_def)
  also have "trimEnd [] = []"
    by (simp only: trimEnd_def rev.simps strip_Nil)
  finally show ?thesis .
qed

text \<open>The wait and the container loop on a page without the first three kinds of
  container.\<close>

lemma document_querySelectorAll_empty_iff:
  "document_querySelectorAll d g = [] \<longleftrightarrow>
     \<not> (\<exists>x \<in> set ((if is_element d then [d] else []) @ descendants d). matches_any g x)"
  by (auto simp add: document_querySelectorAll_def filter_empty_conv)

lemma wait_empty_singles:
  assumes "document_querySelectorAll d wait_selectors = []"
  shows "document_querySelectorAll d [Class ''product-item''] = []"
    and "document_querySelectorAll d [Class ''search-results-item''] = []"
    and "document_querySelectorAll d [Class ''product-card''] = []"
  using assms unfolding document_querySelectorAll_empty_iff wait_selectors_def by auto

lemma productElements_fourth:
  assumes "document_querySelectorAll d wait_selectors = []"
  shows "productElements d selectors =
           document_querySelectorAll d [AttrEq ''data-testid'' ''product-card'']"
  using wait_empty_singles [OF assms] by (simp add: selectors_def Let_def)

lemma extraction_script_nonempty:
  assumes "c \<in> set (productElements d selectors)" and "\<not> faulty h c"
  shows "extraction_script h d \<noteq> []"
proof -
  from assms(1) obtain k where k: "k < length (productElements d selectors)"
    and c: "productElements d selectors ! k = c"
    by (auto simp add: in_set_conv_nth)
  with assms(2) have "k \<in> set (filter (\<lambda>k. \<not> faulty h (productElements d selectors ! k))
                              [0..<length (productElements d selectors)])"
    by simp
  then have "filter (\<lambda>k. \<not> faulty h (productElements d selectors ! k))
                              [0..<length (productElements d selectors)] \<noteq> []"
    by (metis empty_iff empty_set)
  then show ?thesis
    by (simp add: extraction_script_eq)
qed

lemma scrape_wait_timeout:
  assumes "playwright_start w = Ok" "launch w = Ok" "new_context w = Ok" "new_page w = Ok"
    "goto w = Ok"
    and "document_querySelectorAll (dom_at_wait w) wait_selectors = []"
  shows "scrape_falabella w t =
           (Inl (TimeoutError ''Timeout 30000ms exceeded.''),
            t @ [Log LogStartingBrowser, PlaywrightStarted, BrowserLaunched,
                 Log (LogNavigating FALABELLA_URL), Log LogWaiting, PlaywrightStopped,
                 Log (LogScrapeError ''Timeout 30000ms exceeded.'')])"
  using assms
  by (simp add: scrape_falabella_def with_sync_playwright_def with_body_def io_defs
      wait_for_selector_def)

subsection \<open>The delivery envelope\<close>

text \<open>
  C3. For every sequence of products, \<^verbatim>\<open>send_to_n8n\<close> hands exactly one envelope to
  \<^verbatim>\<open>requests.post\<close>; its \<open>total_products\<close> is the length of its \<open>products\<close>, and its
  \<open>products\<close> is the sequence given, in the order given. The count is computed from the
  sequence when the envelope is built.
\<close>

theorem envelope_total_products:
  "posted (snd (send_to_n8n w ps t)) = posted t @ [build_payload w ps]
   \<and> total_products (build_payload w ps) = length (products (build_payload w ps))
   \<and> products (build_payload w ps) = ps"
  by (simp add: send_to_n8n_def build_payload_def posted_append Let_def split: http_outcome.splits)


subsection \<open>Exit codes\<close>

text \<open>
  C1. The exit code of \<^verbatim>\<open>main\<close> is 0 exactly when \<^verbatim>\<open>scrape_falabella\<close> returned at
  least one record and \<^verbatim>\<open>send_to_n8n\<close> returned true on them; in every other case (an
  exception from the extraction, no record, delivery returning false) it is 1.
\<close>

theorem exit_code:
  "fst (main w) =
     (if (\<exists>ps. fst (scrape_falabella w [Log LogRule, Log LogTitle, Log LogRule]) = Inr ps
              \<and> ps \<noteq> [] \<and> fst (send_to_n8n w ps t))
      then 0 else 1)"
  by (auto simp add: main_def send_to_n8n_def Let_def
      split: prod.splits sum.splits http_outcome.splits)

text \<open>
  C7. When the extraction returns an empty sequence, \<^verbatim>\<open>main\<close> exits with code 1, the
  run hands nothing to \<^verbatim>\<open>requests.post\<close>, and the last thing it does is log the
  warning that no products were found.
\<close>

theorem empty_extraction_exit:
  assumes "fst (scrape_falabella w [Log LogRule, Log LogTitle, Log LogRule]) = Inr []"
  shows "fst (main w) = 1
         \<and> posted (snd (main w)) = []
         \<and> snd (main w) =
             snd (scrape_falabella w [Log LogRule, Log LogTitle, Log LogRule]) @ [Log LogNoProducts]"
  using assms scrape_falabella_posted [of w "[Log LogRule, Log LogTitle, Log LogRule]"]
  by (auto simp add: main_def posted_append split: prod.splits sum.splits)

theorem empty_extraction_exit_witness:
  "fst (scrape_falabella (example_world\<lparr>dom_at_eval := empty_doc\<rparr>)
          [Log LogRule, Log LogTitle, Log LogRule]) = Inr []
   \<and> fst (main (example_world\<lparr>dom_at_eval := empty_doc\<rparr>)) = 1
   \<and> posted (snd (main (example_world\<lparr>dom_at_eval := empty_doc\<rparr>))) = []"
proof -
  have h: "fst (scrape_falabella (example_world\<lparr>dom_at_eval := empty_doc\<rparr>)
                  [Log LogRule, Log LogTitle, Log LogRule]) = Inr []"
    by (simp add: ex_defs run_defs)
  from empty_extraction_exit [OF h] h show ?thesis by blast
qed

subsection \<open>The browser is released\<close>

text \<open>
  C8. On every way out of \<^verbatim>\<open>scrape_falabella\<close>, the normal return and every exception
  raised while launching, navigating, waiting or evaluating, no browser launched by the
  function is alive when it returns or re-raises: either \<^verbatim>\<open>browser.close()\<close> ran, or
  the \<^verbatim>\<open>with\<close> statement stopped the Playwright driver that owns the browser.
\<close>

theorem browser_released:
  "\<not> browser_open t \<Longrightarrow> \<not> browser_open (snd (scrape_falabella w t))"
proof (cases "playwright_start w")
  case Ok
  obtain r t' where b: "with_body w (t @ [Log LogStartingBrowser, PlaywrightStarted]) = (r, t')"
    by (cases "with_body w (t @ [Log LogStartingBrowser, PlaywrightStarted])")
  have stopped: "\<not> browser_open (t' @ [PlaywrightStopped])"
    by (simp add: browser_open_snoc)
  have "\<not> browser_open ((t' @ [PlaywrightStopped]) @ [Log m])" for m
    by (simp only: browser_open_snoc track.simps stopped not_False_eq_True)
  with Ok b stopped show ?thesis
    by (cases r) (simp_all add: scrape_falabella_def with_sync_playwright_def)
next
  case (Raises e)
  assume "\<not> browser_open t"
  then have "\<not> browser_open ((t @ [Log LogStartingBrowser]) @ [Log (LogScrapeError (str e))])"
    by (simp only: browser_open_snoc track.simps not_False_eq_True)
  with Raises show ?thesis
    by (simp add: scrape_falabella_def with_sync_playwright_def)
qed

theorem browser_released_witness:
  "\<not> browser_open []
   \<and> BrowserLaunched \<in> set (snd (scrape_falabella
         (example_world\<lparr>goto := Raises (TimeoutError ''Timeout 60000ms exceeded.'')\<rparr>) []))
   \<and> \<not> browser_open (snd (scrape_falabella
         (example_world\<lparr>goto := Raises (TimeoutError ''Timeout 60000ms exceeded.'')\<rparr>) []))"
proof -
  have h: "\<not> browser_open []" by (simp add: browser_open_def)
  have l: "BrowserLaunched \<in> set (snd (scrape_falabella
         (example_world\<lparr>goto := Raises (TimeoutError ''Timeout 60000ms exceeded.'')\<rparr>) []))"
    by (simp add: ex_defs run_defs)
  from browser_released [OF h] h l show ?thesis by blast
qed

subsection \<open>Record identifiers\<close>

text \<open>
  C2, as the script has it. The \<open>id\<close> of a record is one more than the index of its
  container among the matched containers, and a container whose processing throws adds no
  record. So the ids of a result are strictly increasing, hence without duplicates, and
  they are exactly 1..N, N the number of records, when no container throws.
\<close>

theorem extraction_ids:
  "map id_p (extraction_script h doc) =
     map Suc (filter (\<lambda>k. \<not> faulty h (productElements doc selectors ! k))
                     [0..<length (productElements doc selectors)])
   \<and> sorted_wrt (<) (map id_p (extraction_script h doc))
   \<and> distinct (map id_p (extraction_script h doc))
   \<and> ((\<forall>c \<in> set (productElements doc selectors). \<not> faulty h c) \<longrightarrow>
        map id_p (extraction_script h doc) = [1..<Suc (length (extraction_script h doc))])"
proof -
  let ?cs = "productElements doc selectors"
  let ?ids = "map id_p (extraction_script h doc)"
  have eq: "?ids = map Suc (filter (\<lambda>k. \<not> faulty h (?cs ! k)) [0..<length ?cs])"
    by (rule extraction_ids_eq)
  have srt: "sorted_wrt (<) ?ids"
    unfolding eq by (rule strict_sorted_map_Suc_filter)
  have dst: "distinct ?ids"
    using srt strict_sorted_iff by auto
  have dense: "?ids = [1..<Suc (length (extraction_script h doc))]"
    if nf: "\<forall>c \<in> set ?cs. \<not> faulty h c"
  proof -
    have "filter (\<lambda>k. \<not> faulty h (?cs ! k)) [0..<length ?cs] = [0..<length ?cs]"
      using nf by (simp add: filter_id_conv)
    with eq have ids: "?ids = map Suc [0..<length ?cs]" by simp
    then have "length (extraction_script h doc) = length ?cs"
      by (metis length_map length_upt diff_zero)
    with ids show ?thesis by (simp add: map_Suc_upt)
  qed
  from eq srt dst dense show ?thesis by blast
qed


theorem extraction_ids_witness:
  "map (faulty example_host) (productElements example_doc selectors) = [False, False, False]
   \<and> map id_p (extraction_script example_host example_doc) = [1, 2, 3]
   \<and> length (extraction_script example_host example_doc) = 3"
proof -
  have nf: "\<forall>c \<in> set (productElements example_doc selectors). \<not> faulty example_host c"
    by (simp add: example_host_def)
  have len: "length (extraction_script example_host example_doc) = 3"
    by (simp add: ex_defs run_defs extract_card_def)
  from extraction_ids [of example_host example_doc] nf
  have "map id_p (extraction_script example_host example_doc)
          = [1..<Suc (length (extraction_script example_host example_doc))]"
    by blast
  then have "map id_p (extraction_script example_host example_doc) = [1..<Suc 3]"
    by (simp only: len)
  also have "[1..<Suc 3] = [1, 2, 3]"
    by code_simp
  finally have ids: "map id_p (extraction_script example_host example_doc) = [1, 2, 3]" .
  have "map (faulty example_host) (productElements example_doc selectors) = [False, False, False]"
    by (simp add: ex_defs run_defs)
  with ids len show ?thesis by blast
qed

text \<open>
  C2 as stated fails: when processing the first of three containers throws, the two
  records returned carry the ids 2 and 3, not 1 and 2.
\<close>

theorem extraction_ids_counterexample:
  "map id_p (extraction_script (example_host\<lparr>faulty := (\<lambda>c. c = card_a)\<rparr>) example_doc) = [2, 3]
   \<and> map id_p (extraction_script (example_host\<lparr>faulty := (\<lambda>c. c = card_a)\<rparr>) example_doc)
       \<noteq> [1..<Suc (length (extraction_script (example_host\<lparr>faulty := (\<lambda>c. c = card_a)\<rparr>) example_doc))]"
proof -
  have "map id_p (extraction_script (example_host\<lparr>faulty := (\<lambda>c. c = card_a)\<rparr>) example_doc) = [2, 3]"
    by (simp add: ex_defs run_defs extract_card_def card_record_def)
  then show ?thesis by (simp add: upt_rec)
qed

subsection \<open>Which element a field is read from\<close>

text \<open>
  C4, as the script has it. Every record of an extraction result comes from one matched
  container, and for each of its seven fields the script makes one \<^verbatim>\<open>querySelector\<close>
  call on the field's whole comma-separated group. So when some descendant of the
  container matches a sub-selector of the group, the field is read from the first such
  descendant in document order, whichever sub-selector it matches. That element is the
  one the prioritized rule takes whenever at most one sub-selector of the group has a
  match in the container, as is always so for image and link, whose groups have one
  sub-selector.
\<close>

theorem field_element_choice:
  assumes "r \<in> set (extraction_script h doc)"
  shows "\<exists>k < length (productElements doc selectors).
           id_p r = Suc k \<and>
           (\<forall>f i. first_match_at (productElements doc selectors ! k) (field_selectors f) i \<longrightarrow>
              field_of_record f r =
                value_from h f (descendants (productElements doc selectors ! k) ! i)
              \<and> (\<forall>s. only_match (productElements doc selectors ! k) (field_selectors f) s \<longrightarrow>
                   first_by_priority (productElements doc selectors ! k) (field_selectors f) =
                     Some (descendants (productElements doc selectors ! k) ! i)))"
proof -
  from extraction_record_source [OF assms] obtain k where
    k: "k < length (productElements doc selectors)"
    and r: "r = card_record h k (productElements doc selectors ! k)"
    by blast
  let ?c = "productElements doc selectors ! k"
  have idp: "id_p r = Suc k"
    by (simp add: r id_p_card_record)
  have fields: "field_of_record f r = value_from h f (descendants ?c ! i)"
    if "first_match_at ?c (field_selectors f) i" for f i
    unfolding r using that by (rule card_record_field)
  have prio: "first_by_priority ?c (field_selectors f) = Some (descendants ?c ! i)"
    if "first_match_at ?c (field_selectors f) i" "only_match ?c (field_selectors f) s" for f i s
    using that by (rule priority_agrees)
  from k idp fields prio show ?thesis by blast
qed

theorem field_element_choice_witness:
  "\<lparr> id_p = 1, name = ''Marca'', price = ''S/ 99.90'', originalPrice = None, discount = None,
      image_p = Some ''https://www.falabella.com.pe/img/1.jpg'',
      link = Some ''https://www.falabella.com.pe/p/1'', rating = Some ''4.5'' \<rparr>
     \<in> set (extraction_script example_host example_doc)
   \<and> productElements example_doc selectors ! 0 = card_a
   \<and> first_match_at card_a name_selectors 2
   \<and> descendants card_a ! 2 = Element ''span'' [(''class'', ''title'')] [Text ''Marca'']
   \<and> value_from example_host NameField (descendants card_a ! 2) = Some ''Marca''
   \<and> first_match_at card_a price_selectors 4
   \<and> only_match card_a price_selectors (Class ''price'')
   \<and> first_by_priority card_a price_selectors = Some (descendants card_a ! 4)
   \<and> value_from example_host PriceField (descendants card_a ! 4) = Some ''S/ 99.90''"
proof -
  let ?r = "\<lparr> id_p = 1, name = ''Marca'', price = ''S/ 99.90'', originalPrice = None,
      discount = None, image_p = Some ''https://www.falabella.com.pe/img/1.jpg'',
      link = Some ''https://www.falabella.com.pe/p/1'', rating = Some ''4.5'' \<rparr>"
  have mem: "?r \<in> set (extraction_script example_host example_doc)"
    by (simp add: ex_defs run_defs extract_card_def card_record_def Let_def querySelector_def
        name_selectors_def price_selectors_def originalPrice_selectors_def discount_selectors_def
        image_selectors_def link_selectors_def rating_selectors_def trimmed_text_def
        trim_examples or_default_def or_null_def image_of_def src_def href_def)
  have pe: "productElements example_doc selectors ! 0 = card_a"
    by (simp add: ex_defs run_defs)
  have fn: "first_match_at card_a name_selectors 2"
    by (simp add: first_match_at_def card_a_def name_selectors_def classList_def
        is_html_space_def)
  have fp: "first_match_at card_a price_selectors 4"
    by (simp add: first_match_at_def card_a_def price_selectors_def classList_def
        is_html_space_def)
  have om: "only_match card_a price_selectors (Class ''price'')"
    by (simp add: only_match_def card_a_def price_selectors_def classList_def is_html_space_def)
  have d2: "descendants card_a ! 2 = Element ''span'' [(''class'', ''title'')] [Text ''Marca'']"
    by (simp add: card_a_def)
  from field_element_choice [OF mem] obtain k where
    k: "id_p ?r = Suc k"
    and f: "\<forall>f i. first_match_at (productElements example_doc selectors ! k) (field_selectors f) i \<longrightarrow>
              field_of_record f ?r =
                value_from example_host f (descendants (productElements example_doc selectors ! k) ! i)
              \<and> (\<forall>s. only_match (productElements example_doc selectors ! k) (field_selectors f) s \<longrightarrow>
                   first_by_priority (productElements example_doc selectors ! k) (field_selectors f) =
                     Some (descendants (productElements example_doc selectors ! k) ! i))"
    by blast
  from k have "k = 0" by simp
  with f pe have g: "first_match_at card_a (field_selectors f) i \<longrightarrow>
              field_of_record f ?r = value_from example_host f (descendants card_a ! i)
              \<and> (\<forall>s. only_match card_a (field_selectors f) s \<longrightarrow>
                   first_by_priority card_a (field_selectors f) = Some (descendants card_a ! i))"
    for f i
    by simp
  from g [of NameField 2] fn
  have "field_of_record NameField ?r = value_from example_host NameField (descendants card_a ! 2)"
    unfolding field_selectors.simps by blast
  then have vn: "value_from example_host NameField (descendants card_a ! 2) = Some ''Marca''"
    by (simp del: value_from.simps)
  from g [of PriceField 4] fp om
  have "field_of_record PriceField ?r = value_from example_host PriceField (descendants card_a ! 4)"
    and pr: "first_by_priority card_a price_selectors = Some (descendants card_a ! 4)"
    unfolding field_selectors.simps by blast+
  then have vp: "value_from example_host PriceField (descendants card_a ! 4) = Some ''S/ 99.90''"
    by (simp del: value_from.simps)
  from mem pe fn d2 vn fp om pr vp show ?thesis by blast
qed

text \<open>
  C4 as stated fails. In the first example card a \<^verbatim>\<open>.title\<close> element comes before the
  \<^verbatim>\<open>h3\<close> element; \<^verbatim>\<open>h3\<close> is listed before \<^verbatim>\<open>.title\<close> in the name group, so the
  prioritized rule takes the \<^verbatim>\<open>h3\<close>, while the script takes the \<^verbatim>\<open>.title\<close> element
  and the record's name is its text.
\<close>

theorem field_element_choice_counterexample:
  "first_by_priority card_a name_selectors = Some (Element ''h3'' [] [Text '' Zapatilla Uno ''])
   \<and> querySelector card_a name_selectors = Some (Element ''span'' [(''class'', ''title'')] [Text ''Marca''])
   \<and> name (card_record example_host 0 card_a) = ''Marca''"
  by (simp add: ex_defs querySelector_def name_selectors_def classList_def is_html_space_def
      card_record_def Let_def trimmed_text_def trim_examples or_default_def)

subsection \<open>Missing and empty fields\<close>

text \<open>
  C5. Every record of an extraction result comes from one matched container, whose
  1-based position is its id. If no element of the container matches the name group the
  record's name is the string N/A, and likewise for the price; if no element matches the
  image group the record's image is null (and so not the string N/A), and likewise for
  the original price, the discount, the link and the rating.
\<close>

theorem missing_field_fallback:
  assumes "r \<in> set (extraction_script h doc)"
  shows "\<exists>k < length (productElements doc selectors).
           id_p r = Suc k \<and>
           (let c = productElements doc selectors ! k in
              (querySelector c name_selectors = None \<longrightarrow> name r = ''N/A'')
            \<and> (querySelector c price_selectors = None \<longrightarrow> price r = ''N/A'')
            \<and> (querySelector c originalPrice_selectors = None \<longrightarrow> originalPrice r = None)
            \<and> (querySelector c discount_selectors = None \<longrightarrow> discount r = None)
            \<and> (querySelector c image_selectors = None \<longrightarrow> image_p r = None \<and> image_p r \<noteq> Some ''N/A'')
            \<and> (querySelector c link_selectors = None \<longrightarrow> link r = None)
            \<and> (querySelector c rating_selectors = None \<longrightarrow> rating r = None))"
proof -
  from extraction_record_source [OF assms] obtain k where
    k: "k < length (productElements doc selectors)"
    and r: "r = card_record h k (productElements doc selectors ! k)"
    by blast
  have "id_p r = Suc k"
    by (simp add: r id_p_card_record)
  with k r card_record_absent [of "productElements doc selectors ! k" h k] show ?thesis
    by (auto simp add: Let_def)
qed

theorem missing_field_fallback_witness:
  "\<lparr> id_p = 3, name = ''N/A'', price = ''S/ 25'', originalPrice = None, discount = None,
      image_p = None, link = None, rating = None \<rparr>
     \<in> set (extraction_script example_host example_doc)
   \<and> productElements example_doc selectors ! 2 = card_c
   \<and> querySelector card_c name_selectors = None
   \<and> querySelector card_c image_selectors = None
   \<and> name \<lparr> id_p = 3, name = ''N/A'', price = ''S/ 25'', originalPrice = None, discount = None,
      image_p = None, link = None, rating = None \<rparr> = ''N/A''
   \<and> image_p \<lparr> id_p = 3, name = ''N/A'', price = ''S/ 25'', originalPrice = None, discount = None,
      image_p = None, link = None, rating = None \<rparr> = None"
proof -
  let ?r = "\<lparr> id_p = 3, name = ''N/A'', price = ''S/ 25'', originalPrice = None, discount = None,
      image_p = None, link = None, rating = None \<rparr>"
  have mem: "?r \<in> set (extraction_script example_host example_doc)"
    by (simp add: ex_defs run_defs extract_card_def card_record_def Let_def querySelector_def
        name_selectors_def price_selectors_def originalPrice_selectors_def discount_selectors_def
        image_selectors_def link_selectors_def rating_selectors_def trimmed_text_def trim_examples
        or_default_def or_null_def image_of_def src_def href_def)
  have pe: "productElements example_doc selectors ! 2 = card_c"
    by (simp add: ex_defs run_defs)
  have qn: "querySelector card_c name_selectors = None"
    by (simp add: card_c_def querySelector_def name_selectors_def classList_def)
  have qi: "querySelector card_c image_selectors = None"
    by (simp add: card_c_def querySelector_def image_selectors_def)
  from missing_field_fallback [OF mem] obtain k where
    k: "id_p ?r = Suc k"
    and f: "let c = productElements example_doc selectors ! k in
              (querySelector c name_selectors = None \<longrightarrow> name ?r = ''N/A'')
            \<and> (querySelector c price_selectors = None \<longrightarrow> price ?r = ''N/A'')
            \<and> (querySelector c originalPrice_selectors = None \<longrightarrow> originalPrice ?r = None)
            \<and> (querySelector c discount_selectors = None \<longrightarrow> discount ?r = None)
            \<and> (querySelector c image_selectors = None \<longrightarrow> image_p ?r = None \<and> image_p ?r \<noteq> Some ''N/A'')
            \<and> (querySelector c link_selectors = None \<longrightarrow> link ?r = None)
            \<and> (querySelector c rating_selectors = None \<longrightarrow> rating ?r = None)"
    by blast
  from k have "k = 2" by simp
  with f pe qn qi have "name ?r = ''N/A''" and "image_p ?r = None"
    by (simp_all add: Let_def)
  with mem pe qn qi show ?thesis by blast
qed

text \<open>
  C10. The fallback is also taken when an element is found but gives an empty string: a
  name or price element whose trimmed text is empty gives the string N/A, and the text
  trims to empty whenever it is empty or made of white space only (ASCII or not); an
  image whose \<^verbatim>\<open>src\<close> property is the empty string gives its \<^verbatim>\<open>data-src\<close>
  attribute, or null when that is absent or empty. The second example card has a name
  element, whose text is a space and a no-break space, and still gets the name N/A.
\<close>

theorem empty_text_fallback:
  "(querySelector c name_selectors = Some e \<and> trim (textContent e) = []
      \<longrightarrow> name (card_record h k c) = ''N/A'')
   \<and> (querySelector c price_selectors = Some e \<and> trim (textContent e) = []
      \<longrightarrow> price (card_record h k c) = ''N/A'')
   \<and> (list_all (\<lambda>w. w \<in> set js_whitespace) bs \<longrightarrow> trim (concat bs) = [])
   \<and> (querySelector c image_selectors = Some e \<and> src h e = [] \<longrightarrow>
        image_p (card_record h k c) =
          (case getAttribute e ''data-src'' of
             None \<Rightarrow> None
           | Some u \<Rightarrow> if u = [] then None else Some u))
   \<and> querySelector card_b name_selectors \<noteq> None
   \<and> name (card_record h k card_b) = ''N/A''"
proof -
  have n: "name (card_record h k c) = ''N/A''"
    if "querySelector c name_selectors = Some e" "trim (textContent e) = []"
    using that by (simp add: card_record_def Let_def trimmed_text_def or_default_def)
  have p: "price (card_record h k c) = ''N/A''"
    if "querySelector c price_selectors = Some e" "trim (textContent e) = []"
    using that by (simp add: card_record_def Let_def trimmed_text_def or_default_def)
  have w: "trim (concat bs) = []" if "list_all (\<lambda>w. w \<in> set js_whitespace) bs"
    using that by (rule trim_blank)
  have i: "image_p (card_record h k c) =
          (case getAttribute e ''data-src'' of
             None \<Rightarrow> None
           | Some u \<Rightarrow> if u = [] then None else Some u)"
    if "querySelector c image_selectors = Some e" "src h e = []"
    using that by (simp add: card_record_def Let_def image_of_def or_null_def split: option.splits)
  have b1: "querySelector card_b name_selectors \<noteq> None"
    by (simp add: card_b_def querySelector_def name_selectors_def classList_def)
  have b2: "name (card_record h k card_b) = ''N/A''"
    by (simp add: card_b_def querySelector_def name_selectors_def classList_def
        card_record_def Let_def trimmed_text_def or_default_def trim_examples)
  from n p w i b1 b2 show ?thesis by blast
qed

theorem empty_text_fallback_witness:
  "querySelector card_b name_selectors = Some (Element ''h3'' [] [Text [CHR 0x20, CHR 0xC2, CHR 0xA0]])
   \<and> list_all (\<lambda>w. w \<in> set js_whitespace) [[CHR 0x20], [CHR 0xC2, CHR 0xA0]]
   \<and> trim (textContent (Element ''h3'' [] [Text [CHR 0x20, CHR 0xC2, CHR 0xA0]])) = []
   \<and> name (card_record example_host 1 card_b) = ''N/A''
   \<and> querySelector card_b image_selectors = Some (Element ''img'' [(''data-src'', ''/img/2.jpg'')] [])
   \<and> src example_host (Element ''img'' [(''data-src'', ''/img/2.jpg'')] []) = []
   \<and> image_p (card_record example_host 1 card_b) = Some ''/img/2.jpg''"
proof -
  let ?e = "Element ''h3'' [] [Text [CHR 0x20, CHR 0xC2, CHR 0xA0]]"
  let ?img = "Element ''img'' [(''data-src'', ''/img/2.jpg'')] []"
  have q: "querySelector card_b name_selectors = Some ?e"
    by (simp add: card_b_def querySelector_def name_selectors_def classList_def)
  have ws: "list_all (\<lambda>w. w \<in> set js_whitespace) [[CHR 0x20], [CHR 0xC2, CHR 0xA0]]"
    by (simp add: js_whitespace_def)
  from empty_text_fallback [where bs = "[[CHR 0x20], [CHR 0xC2, CHR 0xA0]]"] ws
  have "trim (concat [[CHR 0x20], [CHR 0xC2, CHR 0xA0]]) = []"
    by blast
  then have t: "trim (textContent ?e) = []"
    by simp
  have qi: "querySelector card_b image_selectors = Some ?img"
    by (simp add: card_b_def querySelector_def image_selectors_def)
  have s: "src example_host ?img = []"
    by (simp add: src_def)
  from empty_text_fallback [of card_b ?e example_host 1] q t
  have n: "name (card_record example_host 1 card_b) = ''N/A''" by blast
  from empty_text_fallback [of card_b ?img example_host 1] qi s
  have "image_p (card_record example_host 1 card_b) =
          (case getAttribute ?img ''data-src'' of
             None \<Rightarrow> None
           | Some u \<Rightarrow> if u = [] then None else Some u)" by blast
  then have i: "image_p (card_record example_host 1 card_b) = Some ''/img/2.jpg''" by simp
  from q ws t n qi s i show ?thesis by blast
qed

subsection \<open>Delivery outcomes\<close>

text \<open>
  C6. \<^verbatim>\<open>send_to_n8n\<close> returns true on a response with status 200, whatever its body;
  false on any other status, logging the status code and the body; false when
  \<^verbatim>\<open>requests.post\<close> times out, with a log line of its own; false on any other
  exception, logging its message. The line logged for a timeout differs from the line
  logged for any other exception.
\<close>

theorem delivery_outcome:
  assumes "status_code \<noteq> 200"
  shows "send_to_n8n (w\<lparr>http := Response 200 resp\<rparr>) ps t =
           (True, t @ [Log (LogSending (length ps)),
                       RequestsPost (webhook_url w) (build_payload w ps), Log LogSent])
       \<and> send_to_n8n (w\<lparr>http := Response status_code resp\<rparr>) ps t =
           (False, t @ [Log (LogSending (length ps)),
                        RequestsPost (webhook_url w) (build_payload w ps),
                        Log (LogHttpError status_code resp)])
       \<and> render (LogHttpError status_code resp) =
           cross_mark @ '' Error HTTP '' @ decimal status_code @ '': '' @ resp
       \<and> send_to_n8n (w\<lparr>http := RaisesTimeout\<rparr>) ps t =
           (False, t @ [Log (LogSending (length ps)),
                        RequestsPost (webhook_url w) (build_payload w ps), Log LogSendTimeout])
       \<and> send_to_n8n (w\<lparr>http := RaisesOther e\<rparr>) ps t =
           (False, t @ [Log (LogSending (length ps)),
                        RequestsPost (webhook_url w) (build_payload w ps), Log (LogSendError e)])
       \<and> render (LogSendError e) = cross_mark @ '' Error enviando a n8n: '' @ e
       \<and> render LogSendTimeout \<noteq> render (LogSendError e')"
  using assms by (simp add: send_to_n8n_def build_payload_def Let_def cross_mark_def)

theorem delivery_outcome_witness:
  "(500::nat) \<noteq> 200
   \<and> fst (send_to_n8n (example_world\<lparr>http := Response 500 ''server error''\<rparr>) [] []) = False
   \<and> printed (snd (send_to_n8n (example_world\<lparr>http := Response 500 ''server error''\<rparr>) [] []))
       = [[CHR 0xF0, CHR 0x9F, CHR 0x93, CHR 0xA4] @ '' Enviando 0 productos a n8n...'',
          cross_mark @ '' Error HTTP 500: server error'']"
proof -
  have h: "(500::nat) \<noteq> 200" by simp
  have d: "decimal 500 = ''500''" by code_simp
  have d0: "decimal 0 = ''0''" by code_simp
  from delivery_outcome [OF h, where w = example_world and resp = "''server error''"
      and ps = "[]" and t = "[]"] h d d0 show ?thesis
    by (simp del: decimal.simps)
qed

subsection \<open>The wait looks for fewer containers than the extraction\<close>

text \<open>
  C9. The group given to \<^verbatim>\<open>wait_for_selector\<close> is the list of container selectors of
  the extraction script without its fourth entry. On a page where no element matches the
  first three and some element matches the fourth, the wait times out, so
  \<^verbatim>\<open>scrape_falabella\<close> raises, \<^verbatim>\<open>main\<close> exits with 1 and nothing is posted, although
  the extraction script run on that page returns a record for every container that does
  not throw.
\<close>

theorem wait_selectors_narrower:
  assumes "playwright_start w = Ok" "launch w = Ok" "new_context w = Ok" "new_page w = Ok"
    "goto w = Ok"
    and "document_querySelectorAll (dom_at_wait w) wait_selectors = []"
    and "c \<in> set (document_querySelectorAll (dom_at_wait w)
                     [AttrEq ''data-testid'' ''product-card''])"
    and "\<not> faulty (page_host w) c"
  shows "selectors = wait_selectors @ [AttrEq ''data-testid'' ''product-card'']
       \<and> set wait_selectors \<subset> set selectors
       \<and> fst (scrape_falabella w t) = Inl (TimeoutError ''Timeout 30000ms exceeded.'')
       \<and> fst (main w) = 1
       \<and> posted (snd (main w)) = []
       \<and> extraction_script (page_host w) (dom_at_wait w) \<noteq> []"
proof -
  have a: "selectors = wait_selectors @ [AttrEq ''data-testid'' ''product-card'']"
    by (simp add: selectors_def wait_selectors_def)
  have b: "set wait_selectors \<subset> set selectors"
    by (auto simp add: selectors_def wait_selectors_def)
  have s: "scrape_falabella w t' =
           (Inl (TimeoutError ''Timeout 30000ms exceeded.''),
            t' @ [Log LogStartingBrowser, PlaywrightStarted, BrowserLaunched,
                 Log (LogNavigating FALABELLA_URL), Log LogWaiting, PlaywrightStopped,
                 Log (LogScrapeError ''Timeout 30000ms exceeded.'')])" for t'
    by (rule scrape_wait_timeout) (rule assms)+
  have m: "fst (main w) = 1" "posted (snd (main w)) = []"
    by (simp_all add: main_def s)
  have "c \<in> set (productElements (dom_at_wait w) selectors)"
    using assms(7) productElements_fourth [OF assms(6)] by simp
  then have e: "extraction_script (page_host w) (dom_at_wait w) \<noteq> []"
    using assms(8) by (rule extraction_script_nonempty)
  from a b s m e show ?thesis by simp
qed

theorem wait_selectors_narrower_witness:
  "document_querySelectorAll testid_doc wait_selectors = []
   \<and> document_querySelectorAll testid_doc [AttrEq ''data-testid'' ''product-card'']
       = [Element ''div'' [(''data-testid'', ''product-card'')]
           [Element ''h3'' [] [Text ''Zapato Dos''],
            Element ''span'' [(''class'', ''price'')] [Text ''S/ 59'']]]
   \<and> fst (scrape_falabella (example_world\<lparr>dom_at_wait := testid_doc, dom_at_eval := testid_doc\<rparr>) [])
       = Inl (TimeoutError ''Timeout 30000ms exceeded.'')
   \<and> fst (main (example_world\<lparr>dom_at_wait := testid_doc, dom_at_eval := testid_doc\<rparr>)) = 1
   \<and> extraction_script example_host testid_doc \<noteq> []"
proof -
  let ?w = "example_world\<lparr>dom_at_wait := testid_doc, dom_at_eval := testid_doc\<rparr>"
  let ?c = "Element ''div'' [(''data-testid'', ''product-card'')]
           [Element ''h3'' [] [Text ''Zapato Dos''],
            Element ''span'' [(''class'', ''price'')] [Text ''S/ 59'']]"
  have ok: "playwright_start ?w = Ok" "launch ?w = Ok" "new_context ?w = Ok" "new_page ?w = Ok"
    "goto ?w = Ok"
    by (simp_all add: example_world_def)
  have none: "document_querySelectorAll testid_doc wait_selectors = []"
    by (simp add: testid_doc_def document_querySelectorAll_def wait_selectors_def classList_def)
  have four: "document_querySelectorAll testid_doc [AttrEq ''data-testid'' ''product-card''] = [?c]"
    by (simp add: testid_doc_def document_querySelectorAll_def)
  have dw: "dom_at_wait ?w = testid_doc" and ph: "page_host ?w = example_host"
    by (simp_all add: example_world_def)
  have h6: "document_querySelectorAll (dom_at_wait ?w) wait_selectors = []"
    by (simp only: dw none)
  have h7: "?c \<in> set (document_querySelectorAll (dom_at_wait ?w)
                     [AttrEq ''data-testid'' ''product-card''])"
    by (simp only: dw four) simp
  have h8: "\<not> faulty (page_host ?w) ?c"
    by (simp add: ph example_host_def)
  from wait_selectors_narrower [OF ok h6 h7 h8, of "[]"] none four dw ph show ?thesis
    by simp
qed

end
